theory Spec2Isabelle
  imports Complex_Main "HOL-Library.AList"
begin

section \<open>Data model\<close>

text \<open>
  A \<open>MindMapNode\<close> of \<open>api.ts\<close>: \<open>id\<close>, \<open>title\<close>, the optional \<open>description\<close>
  (\<open>None\<close> for \<open>undefined\<close>/\<open>null\<close>) and the owned list of children. The last field is the
  property \<open>_requiredHeight\<close> that \<open>calcHeight\<close> writes onto the node object
  (\<open>None\<close> while it has never been written). JavaScript numbers are modelled as exact
  rationals: every height is an integer and every coordinate a sum, half or mean of such.
\<close>

datatype MindMapNode =
  MindMapNode (node_id: string) (title: string) (description: "string option")
    (children: "MindMapNode list") (requiredHeight: "rat option")

record GlobalMindMap =
  user_id :: string
  thread_id :: string
  roots :: "MindMapNode list"

section \<open>Size estimator\<close>

text \<open>\<open>!n.description\<close>: the description is \<open>undefined\<close>, \<open>null\<close> or the empty string.\<close>

definition noDescription :: "MindMapNode \<Rightarrow> bool" where
  "noDescription n = (case description n of None \<Rightarrow> True | Some text \<Rightarrow> text = [])"

definition estimateSelfHeight :: "string set \<Rightarrow> MindMapNode \<Rightarrow> rat" where
  "estimateSelfHeight expandedNodes n =
    (let baseCollapsed = 72;
         isExpanded = (node_id n \<in> expandedNodes)
     in if \<not> isExpanded \<or> noDescription n then baseCollapsed
        else
          let charsPerLine = 80;
              text = (case description n of None \<Rightarrow> [] | Some d \<Rightarrow> d);
              lines = of_int \<lceil>rat_of_nat (length text) / charsPerLine\<rceil>;
              lineHeight = 18;
              padding = 36;
              SAFETY = 28;
              raw = baseCollapsed + padding + lines * lineHeight + SAFETY;
              MAX_HEIGHT = baseCollapsed + padding + 220
          in min raw MAX_HEIGHT)"

section \<open>Bottom-up sizing\<close>

text \<open>
  \<open>calcHeight\<close> returns the height and, as the source mutates the node, the node with
  \<open>_requiredHeight\<close> written on it and on every descendant.
\<close>

fun calcHeight :: "string set \<Rightarrow> MindMapNode \<Rightarrow> rat \<times> MindMapNode" where
  "calcHeight expandedNodes (MindMapNode i t d cs rh) =
    (if cs = [] then
       let h = max 100 (estimateSelfHeight expandedNodes (MindMapNode i t d cs rh))
       in (h, MindMapNode i t d cs (Some h))
     else
       let rs = map (calcHeight expandedNodes) cs;
           total = sum_list (map fst rs);
           minGap = 48;
           self = estimateSelfHeight expandedNodes (MindMapNode i t d cs rh);
           childrenSpace = max (total + rat_of_nat (length cs) * minGap) 100;
           h = max self childrenSpace
       in (h, MindMapNode i t d (map snd rs) (Some h)))"

text \<open>\<open>(mindMap.roots || []).forEach(calcHeight)\<close>: the roots after the sizing pass.\<close>

definition sizeRoots :: "string set \<Rightarrow> MindMapNode list \<Rightarrow> MindMapNode list" where
  "sizeRoots expandedNodes rs = map (\<lambda>r. snd (calcHeight expandedNodes r)) rs"

text \<open>All nodes of a tree, parent before children (the order in which \<open>add\<close> visits them).\<close>

fun nodesOf :: "MindMapNode \<Rightarrow> MindMapNode list" where
  "nodesOf (MindMapNode i t d cs rh) = MindMapNode i t d cs rh # concat (map nodesOf cs)"

definition forestNodes :: "MindMapNode list \<Rightarrow> MindMapNode list" where
  "forestNodes rs = concat (map nodesOf rs)"


section \<open>Top-down placement\<close>

text \<open>
  A React Flow node as \<open>add\<close> pushes it: \<open>id\<close>, \<open>position\<close> and the \<open>data\<close> payload.
  The constant fields (\<open>type\<close>, \<open>sourcePosition\<close>, \<open>targetPosition\<close>) and the
  \<open>onToggle\<close> closure are left out.
\<close>

record FlowNode =
  fn_id :: string
  position_x :: rat
  position_y :: rat
  data_title :: string
  data_description :: string
  data_level :: nat
  data_isExpanded :: bool
  data_isDark :: bool

record FlowEdge =
  edge_id :: string
  edge_source :: string
  edge_target :: string
  edge_animated :: bool
  edge_stroke :: string
  edge_strokeWidth :: rat

definition BLUE_SCALE :: "nat \<Rightarrow> string" where
  "BLUE_SCALE k =
    (if k = 0 then ''hsl(249 84.7% 64.1%)''
     else if k = 1 then ''hsl(249 73.7% 59.8%)''
     else if k = 2 then ''hsl(248 55.1% 52%)''
     else if k = 3 then ''hsl(255 63.3% 40.6%)''
     else if k = 4 then ''hsl(258 74% 33.1%)''
     else ''hsl(258 78.2% 32.4%)'')"

definition getEdgeStroke :: "nat \<Rightarrow> bool \<Rightarrow> string" where
  "getEdgeStroke level isDark =
    (if isDark then
       (if level = 1 then BLUE_SCALE 3
        else if level = 2 then BLUE_SCALE 4
        else if level \<ge> 3 then BLUE_SCALE 5
        else BLUE_SCALE 2)
     else
       (if level = 1 then BLUE_SCALE 1
        else if level = 2 then BLUE_SCALE 2
        else if level \<ge> 3 then BLUE_SCALE 3
        else BLUE_SCALE 0))"

text \<open>
  The mutable structures that \<open>convertMindMapToFlow\<close> fills while it walks the tree.
  \<open>levelMap\<close> is an association list in insertion order, as a JavaScript \<open>Map\<close>
  enumerates its keys.
\<close>

record Build =
  newNodes :: "FlowNode list"
  newEdges :: "FlowEdge list"
  levelMap :: "(nat \<times> string list) list"
  childrenMap :: "string \<rightharpoonup> string list"
  parentMap :: "string \<rightharpoonup> string option"
  idToMindNode :: "string \<rightharpoonup> MindMapNode"

definition emptyBuild :: Build where
  "emptyBuild = \<lparr>newNodes = [], newEdges = [], levelMap = [], childrenMap = Map.empty,
     parentMap = Map.empty, idToMindNode = Map.empty\<rparr>"

text \<open>\<open>if (!levelMap.has(level)) levelMap.set(level, []); levelMap.get(level)!.push(id)\<close>\<close>

definition pushLevel :: "nat \<Rightarrow> string \<Rightarrow> (nat \<times> string list) list \<Rightarrow> (nat \<times> string list) list" where
  "pushLevel level i lm =
    (case map_of lm level of
       None \<Rightarrow> lm @ [(level, [i])]
     | Some ids \<Rightarrow> AList.update level (ids @ [i]) lm)"

text \<open>\<open>(c as any)._requiredHeight || dflt\<close>: the default replaces \<open>undefined\<close> and 0.\<close>

definition requiredHeightOr :: "rat \<Rightarrow> MindMapNode \<Rightarrow> rat" where
  "requiredHeightOr dflt c =
    (case requiredHeight c of None \<Rightarrow> dflt | Some h \<Rightarrow> if h = 0 then dflt else h)"

definition horizontalSpacing :: rat where "horizontalSpacing = 520"
definition baseX :: rat where "baseX = 200"

fun add :: "string set \<Rightarrow> bool \<Rightarrow> MindMapNode \<Rightarrow> string option \<Rightarrow> nat \<Rightarrow> rat \<Rightarrow> rat \<Rightarrow> Build \<Rightarrow> Build"
and addChildren :: "string set \<Rightarrow> bool \<Rightarrow> MindMapNode list \<Rightarrow> string \<Rightarrow> nat \<Rightarrow> rat \<Rightarrow> Build \<Rightarrow> Build"
where
  "add expandedNodes isDark (MindMapNode i t d cs rh) parentId level allocatedY allocatedH b =
    (let x = baseX + rat_of_nat level * horizontalSpacing;
         y = allocatedY + allocatedH / 2;
         isExpanded = (i \<in> expandedNodes);
         node = \<lparr>fn_id = i, position_x = x, position_y = y,
                 data_title = (if t = [] then ''Untitled'' else t),
                 data_description = (case d of None \<Rightarrow> [] | Some text \<Rightarrow> text),
                 data_level = level, data_isExpanded = isExpanded, data_isDark = isDark\<rparr>;
         edges = (case parentId of
                    None \<Rightarrow> []
                  | Some p \<Rightarrow>
                      if p = [] then []
                      else [\<lparr>edge_id = ''e-'' @ p @ ''-'' @ i, edge_source = p, edge_target = i,
                             edge_animated = (level = 1),
                             edge_stroke = getEdgeStroke level isDark,
                             edge_strokeWidth = (if level = 1 then 3 else if level = 2 then 5 / 2 else 2)\<rparr>]);
         b1 = b\<lparr>newNodes := newNodes b @ [node],
                newEdges := newEdges b @ edges,
                levelMap := pushLevel level i (levelMap b),
                childrenMap := (childrenMap b)(i \<mapsto> map node_id cs),
                parentMap := (parentMap b)(i \<mapsto> parentId),
                idToMindNode := (idToMindNode b)(i \<mapsto> MindMapNode i t d cs rh)\<rparr>
     in addChildren expandedNodes isDark cs i (level + 1) allocatedY b1)"
| "addChildren expandedNodes isDark [] parentId level childY b = b"
| "addChildren expandedNodes isDark (c # cs) parentId level childY b =
    (let h = requiredHeightOr 100 c
     in addChildren expandedNodes isDark cs parentId level (childY + h)
          (add expandedNodes isDark c (Some parentId) level childY h b))"

text \<open>The roots are laid out one below another, 50 apart, starting at \<open>rootY = 50\<close>.\<close>

fun addRoots :: "string set \<Rightarrow> bool \<Rightarrow> MindMapNode list \<Rightarrow> rat \<Rightarrow> Build \<Rightarrow> Build" where
  "addRoots expandedNodes isDark [] rootY b = b"
| "addRoots expandedNodes isDark (r # rs) rootY b =
    (let rh = requiredHeightOr 200 r
     in addRoots expandedNodes isDark rs (rootY + rh + 50)
          (add expandedNodes isDark r None 0 rootY rh b))"

section \<open>Collision passes and recentering\<close>

text \<open>\<open>newNodes.forEach((n, idx) => idToIndex.set(n.id, idx))\<close>: a later node wins an id.\<close>

definition idToIndexOf :: "FlowNode list \<Rightarrow> (string \<rightharpoonup> nat)" where
  "idToIndexOf nodes =
    fold (\<lambda>(idx, n) m. m(fn_id n \<mapsto> idx)) (enumerate 0 nodes) Map.empty"

definition heightOf :: "string set \<Rightarrow> (string \<rightharpoonup> MindMapNode) \<Rightarrow> string \<Rightarrow> rat" where
  "heightOf expandedNodes itm i =
    (let est = (case itm i of Some m \<Rightarrow> estimateSelfHeight expandedNodes m | None \<Rightarrow> 100)
     in max 100 est)"

text \<open>
  \<open>newNodes[idToIndex.get(id)!].position.y\<close>. Every id that is looked up was pushed
  together with its node, so the index exists; the model reads 0 where it does not.
\<close>

definition yOf :: "(string \<rightharpoonup> nat) \<Rightarrow> FlowNode list \<Rightarrow> string \<Rightarrow> rat" where
  "yOf idx nodes i = (case idx i of Some k \<Rightarrow> position_y (nodes ! k) | None \<Rightarrow> 0)"

definition shiftNode :: "(string \<rightharpoonup> nat) \<Rightarrow> string \<Rightarrow> rat \<Rightarrow> FlowNode list \<Rightarrow> FlowNode list" where
  "shiftNode idx i dy nodes =
    (case idx i of
       None \<Rightarrow> nodes
     | Some k \<Rightarrow> nodes[k := (nodes ! k)\<lparr>position_y := position_y (nodes ! k) + dy\<rparr>])"

text \<open>
  \<open>applyShiftRec\<close> recurses through \<open>childrenMap\<close>, not through the tree, so its
  recursion depth is not structural. The first argument bounds the depth of the call
  stack; \<open>None\<close> is a recursion that does not end within the bound.
\<close>

fun applyShiftRec :: "nat \<Rightarrow> (string \<rightharpoonup> string list) \<Rightarrow> (string \<rightharpoonup> nat) \<Rightarrow> string \<Rightarrow> rat
    \<Rightarrow> FlowNode list \<Rightarrow> FlowNode list option" where
  "applyShiftRec 0 cm idx i dy nodes = None"
| "applyShiftRec (Suc fuel) cm idx i dy nodes =
    fold (\<lambda>k acc. case acc of None \<Rightarrow> None | Some ns \<Rightarrow> applyShiftRec fuel cm idx k dy ns)
      (case cm i of None \<Rightarrow> [] | Some kids \<Rightarrow> kids)
      (Some (shiftNode idx i dy nodes))"

definition minVerticalGap :: rat where "minVerticalGap = 52"

text \<open>
  The walk over one level's ids, already sorted. \<open>prevBottom\<close> is \<open>None\<close> for
  \<open>-Infinity\<close>, against which no top is too small.
\<close>

fun collideIds :: "nat \<Rightarrow> string set \<Rightarrow> (string \<rightharpoonup> MindMapNode) \<Rightarrow> (string \<rightharpoonup> string list)
    \<Rightarrow> (string \<rightharpoonup> nat) \<Rightarrow> string list \<Rightarrow> rat option \<Rightarrow> FlowNode list \<Rightarrow> FlowNode list option" where
  "collideIds fuel expandedNodes itm cm idx [] prevBottom nodes = Some nodes"
| "collideIds fuel expandedNodes itm cm idx (i # ids) prevBottom nodes =
    (let h = heightOf expandedNodes itm i;
         y = yOf idx nodes i;
         top = y - h / 2
     in case prevBottom of
          None \<Rightarrow> collideIds fuel expandedNodes itm cm idx ids (Some (top + h)) nodes
        | Some pb \<Rightarrow>
            let requiredTop = pb + minVerticalGap
            in if top < requiredTop then
                 (let dy = requiredTop - top
                  in case applyShiftRec fuel cm idx i dy nodes of
                       None \<Rightarrow> None
                     | Some nodes' \<Rightarrow>
                         collideIds fuel expandedNodes itm cm idx ids (Some (top + dy + h)) nodes')
               else collideIds fuel expandedNodes itm cm idx ids (Some (top + h)) nodes)"

text \<open>\<open>Array.from(levelMap.keys()).sort((a, b) => a - b)\<close>\<close>

definition levelsOf :: "(nat \<times> string list) list \<Rightarrow> nat list" where
  "levelsOf lm = sort (map fst lm)"

definition levelIds :: "(nat \<times> string list) list \<Rightarrow> nat \<Rightarrow> string list" where
  "levelIds lm lvl = (case map_of lm lvl of None \<Rightarrow> [] | Some ids \<Rightarrow> ids)"

text \<open>One level of \<open>runCollisionPass\<close>: the ids in ascending y (a stable sort), then the walk.\<close>

definition collideLevel :: "nat \<Rightarrow> string set \<Rightarrow> Build \<Rightarrow> (string \<rightharpoonup> nat) \<Rightarrow> nat
    \<Rightarrow> FlowNode list \<Rightarrow> FlowNode list option" where
  "collideLevel fuel expandedNodes b idx lvl nodes =
    collideIds fuel expandedNodes (idToMindNode b) (childrenMap b) idx
      (sort_key (yOf idx nodes) (levelIds (levelMap b) lvl)) None nodes"

fun collideLevels :: "nat \<Rightarrow> string set \<Rightarrow> Build \<Rightarrow> (string \<rightharpoonup> nat) \<Rightarrow> nat list
    \<Rightarrow> FlowNode list \<Rightarrow> FlowNode list option" where
  "collideLevels fuel expandedNodes b idx [] nodes = Some nodes"
| "collideLevels fuel expandedNodes b idx (lvl # lvls) nodes =
    (case collideLevel fuel expandedNodes b idx lvl nodes of
       None \<Rightarrow> None
     | Some nodes' \<Rightarrow> collideLevels fuel expandedNodes b idx lvls nodes')"

text \<open>
  \<open>runCollisionPass\<close> on the current node list. The call stack of \<open>applyShiftRec\<close> is
  bounded by the number of nodes plus one: a chain of \<open>childrenMap\<close> entries never
  revisits an id.
\<close>

definition runCollisionPass :: "string set \<Rightarrow> Build \<Rightarrow> FlowNode list \<Rightarrow> FlowNode list option" where
  "runCollisionPass expandedNodes b nodes =
    collideLevels (Suc (length (newNodes b))) expandedNodes b (idToIndexOf (newNodes b))
      (levelsOf (levelMap b)) nodes"

text \<open>
  The recentering of one parent: the mean of its children's current y. The quotient is
  exact here; the code's division rounds it to a double when the number of children is
  not a power of two.
\<close>

definition recenterNode :: "(string \<rightharpoonup> string list) \<Rightarrow> (string \<rightharpoonup> nat) \<Rightarrow> string
    \<Rightarrow> FlowNode list \<Rightarrow> FlowNode list" where
  "recenterNode cm idx i nodes =
    (let kids = (case cm i of None \<Rightarrow> [] | Some ks \<Rightarrow> ks)
     in if kids = [] then nodes
        else
          let ys = map (yOf idx nodes) kids;
              avg = fold (\<lambda>b a. a + b) ys 0 / rat_of_nat (length ys)
          in case idx i of
               None \<Rightarrow> nodes
             | Some k \<Rightarrow> nodes[k := (nodes ! k)\<lparr>position_y := avg\<rparr>])"

text \<open>\<open>for (let lvl = maxLevel - 1; lvl >= 0; lvl--)\<close>, with \<open>maxLevel\<close> the largest level or 0.\<close>

definition maxLevelOf :: "nat list \<Rightarrow> nat" where
  "maxLevelOf levels = (if levels = [] then 0 else fold max levels 0)"

definition recenterParents :: "Build \<Rightarrow> FlowNode list \<Rightarrow> FlowNode list" where
  "recenterParents b nodes =
    fold (\<lambda>lvl ns. fold (recenterNode (childrenMap b) (idToIndexOf (newNodes b)))
                      (levelIds (levelMap b) lvl) ns)
      (rev [0 ..< maxLevelOf (levelsOf (levelMap b))]) nodes"

section \<open>The layout function\<close>

text \<open>The state after sizing and placement, before the first collision pass.\<close>

definition placement :: "string set \<Rightarrow> bool \<Rightarrow> GlobalMindMap \<Rightarrow> Build" where
  "placement expandedNodes isDark mindMap =
    addRoots expandedNodes isDark (sizeRoots expandedNodes (roots mindMap)) 50 emptyBuild"

text \<open>The node list after the first collision pass and the recentering loop.\<close>

definition recentered :: "string set \<Rightarrow> bool \<Rightarrow> GlobalMindMap \<Rightarrow> FlowNode list option" where
  "recentered expandedNodes isDark mindMap =
    (let b = placement expandedNodes isDark mindMap
     in map_option (recenterParents b) (runCollisionPass expandedNodes b (newNodes b)))"

text \<open>
  \<open>convertMindMapToFlow\<close>: the nodes and edges handed to \<open>setNodes\<close> and \<open>setEdges\<close>, and
  the mind map as the sizing pass leaves it (each node carries its \<open>_requiredHeight\<close>).
\<close>

definition convertMindMapToFlow :: "string set \<Rightarrow> bool \<Rightarrow> GlobalMindMap
    \<Rightarrow> (FlowNode list \<times> FlowEdge list \<times> GlobalMindMap) option" where
  "convertMindMapToFlow expandedNodes isDark mindMap =
    (let b = placement expandedNodes isDark mindMap
     in case recentered expandedNodes isDark mindMap of
          None \<Rightarrow> None
        | Some centred \<Rightarrow>
            (case runCollisionPass expandedNodes b centred of
               None \<Rightarrow> None
             | Some final \<Rightarrow>
                 Some (final, newEdges b,
                       mindMap\<lparr>roots := sizeRoots expandedNodes (roots mindMap)\<rparr>)))"

text \<open>\<open>translateExtent\<close>: the bounding box of the node positions with its margins.\<close>

definition translateExtent :: "FlowNode list \<Rightarrow> ((rat \<times> rat) \<times> (rat \<times> rat)) option" where
  "translateExtent nodes =
    (if nodes = [] then None
     else
       let xs = map position_x nodes;
           ys = map position_y nodes;
           minX = fold min (tl xs) (hd xs) - 300;
           maxX = fold max (tl xs) (hd xs) + 800;
           minY = fold min (tl ys) (hd ys) - 300;
           maxY = fold max (tl ys) (hd ys) + 300
       in Some ((minX, minY), (maxX, maxY)))"


section \<open>Expansion toggle\<close>

text \<open>\<open>onNodeClick\<close> and \<open>onToggle\<close>: a copy of the set with the clicked id flipped.\<close>

definition toggle :: "string \<Rightarrow> string set \<Rightarrow> string set" where
  "toggle i prev = (if i \<in> prev then prev - {i} else insert i prev)"

section \<open>Progress feed and polling loop\<close>

record MindMapResponse =
  mind_map :: bool
  resp_status :: "bool option"
  resp_message :: string
  resp_data :: "GlobalMindMap option"

text \<open>
  The payload of a progress event. \<open>pp_message\<close> is \<open>None\<close> unless
  \<open>typeof data.message === 'string'\<close>; \<open>pp_completed\<close> is the optional boolean.
\<close>

record ProgressPayload =
  pp_message :: "string option"
  pp_status :: "bool option"
  pp_data :: "GlobalMindMap option"
  pp_completed :: "bool option"

text \<open>
  The component's state variables and refs. \<open>pollingTimeoutRef\<close> holds the pending
  timer as its delay in milliseconds, \<open>socketRef\<close> whether a socket is held, and
  \<open>lastPayloadRef\<close> the last response whose \<open>JSON.stringify\<close> was stored (\<open>None\<close> for
  the initial empty string). \<open>pollRequests\<close> is not in the source: it counts the calls
  \<open>api.getMindMap\<close> issued by \<open>pollOnce\<close>.
\<close>

record ModalState =
  initialFetch :: "MindMapResponse option"
  mapData :: "GlobalMindMap option"
  status :: "bool option"
  message :: string
  showMessage :: bool
  expandedNodes :: "string set"
  pollingTimeoutRef :: "nat option"
  pollingActiveRef :: bool
  socketRef :: bool
  lastPayloadRef :: "MindMapResponse option"
  pollRequests :: nat

definition initialState :: ModalState where
  "initialState = \<lparr>initialFetch = None, mapData = None, status = None, message = [],
     showMessage = True, expandedNodes = {}, pollingTimeoutRef = None,
     pollingActiveRef = False, socketRef = False, lastPayloadRef = None, pollRequests = 0\<rparr>"

definition onProgress :: "ProgressPayload \<Rightarrow> ModalState \<Rightarrow> ModalState" where
  "onProgress data s =
    (let s1 = (case pp_message data of
                 Some m \<Rightarrow> s\<lparr>message := m, showMessage := True\<rparr>
               | None \<Rightarrow> s)
     in if pp_completed data = Some True then
          s1\<lparr>pollingActiveRef := False, pollingTimeoutRef := None, socketRef := False,
             showMessage := False\<rparr>
        else s1)"

definition closeEverything :: "ModalState \<Rightarrow> ModalState" where
  "closeEverything s = s\<lparr>pollingActiveRef := False, pollingTimeoutRef := None, socketRef := False\<rparr>"

text \<open>
  \<open>pollOnce\<close> is split at its \<open>await\<close>. \<open>pollOnce_start\<close> runs up to the request;
  \<open>pollOnce_resume\<close> is the continuation, run when the request has settled.
\<close>

datatype 'a settled = Rejected | Resolved 'a

definition pollOnce_start :: "ModalState \<Rightarrow> ModalState" where
  "pollOnce_start s =
    (if \<not> pollingActiveRef s then s else s\<lparr>pollRequests := pollRequests s + 1\<rparr>)"

definition scheduleNext :: "ModalState \<Rightarrow> ModalState" where
  "scheduleNext s = (if pollingActiveRef s then s\<lparr>pollingTimeoutRef := Some 10000\<rparr> else s)"

definition applyPoll :: "MindMapResponse \<Rightarrow> ModalState \<Rightarrow> ModalState" where
  "applyPoll r s =
    (if Some r \<noteq> lastPayloadRef s then
       (let s1 = s\<lparr>lastPayloadRef := Some r, status := resp_status r\<rparr>
        in if resp_status r = Some True \<and> resp_data r \<noteq> None
           then s1\<lparr>mapData := resp_data r\<rparr> else s1)
     else s)"

definition pollOnce_resume :: "MindMapResponse settled \<Rightarrow> ModalState \<Rightarrow> ModalState" where
  "pollOnce_resume res s =
    (case res of
       Rejected \<Rightarrow> scheduleNext s
     | Resolved r \<Rightarrow>
         if \<not> pollingActiveRef s then s
         else
           let s1 = applyPoll r s
           in if \<not> mind_map r
              then s1\<lparr>pollingActiveRef := False, pollingTimeoutRef := None\<rparr>
              else scheduleNext s1)"

text \<open>
  The continuation of the initial fetch when the effect has not been cancelled: it
  stores the response, and where a mind-map flow exists it opens the socket, sets the
  active flag and makes the first call of \<open>pollOnce\<close>.
\<close>

definition startCoordinator :: "MindMapResponse \<Rightarrow> ModalState \<Rightarrow> ModalState" where
  "startCoordinator res s =
    (let s1 = s\<lparr>initialFetch := Some res, message := resp_message res\<rparr>
     in if mind_map res then
          (let s2 = s1\<lparr>status := resp_status res\<rparr>;
               s3 = (if resp_status res = Some True \<and> resp_data res \<noteq> None
                     then s2\<lparr>mapData := resp_data res\<rparr> else s2)
           in pollOnce_start (s3\<lparr>socketRef := True, pollingActiveRef := True\<rparr>))
        else s1)"

text \<open>
  What can happen to a running coordinator, in any order: a progress event, the poll
  timer firing, a poll request settling, the dialog closing, a click on a node.
\<close>

datatype Event =
    Progress ProgressPayload
  | TimerFires
  | PollSettles "MindMapResponse settled"
  | Close
  | NodeClick string

fun step :: "Event \<Rightarrow> ModalState \<Rightarrow> ModalState" where
  "step (Progress data) s = onProgress data s"
| "step TimerFires s = pollOnce_start s"
| "step (PollSettles res) s = pollOnce_resume res s"
| "step Close s = closeEverything s"
| "step (NodeClick i) s = s\<lparr>expandedNodes := toggle i (expandedNodes s)\<rparr>"

definition run :: "Event list \<Rightarrow> ModalState \<Rightarrow> ModalState" where
  "run evs s = fold step evs s"


section \<open>Derived notions used in the statements\<close>

text \<open>The cached heights of a node's children, as the sizing pass left them.\<close>

definition childHeights :: "MindMapNode \<Rightarrow> rat list" where
  "childHeights m = map (\<lambda>c. case requiredHeight c of None \<Rightarrow> 0 | Some h \<Rightarrow> h) (children m)"

text \<open>
  The sizing rule as the specification words it, with the minimum leaf height and the
  gap as parameters: a gap between each two neighbouring children.
\<close>

definition specRequiredHeight :: "rat \<Rightarrow> rat \<Rightarrow> string set \<Rightarrow> MindMapNode \<Rightarrow> rat" where
  "specRequiredHeight minLeaf minGap E m =
    (if children m = [] then max minLeaf (estimateSelfHeight E m)
     else max (estimateSelfHeight E m)
            (sum_list (childHeights m) + (rat_of_nat (length (children m)) - 1) * minGap))"

text \<open>
  The rule that \<open>calcHeight\<close> implements: one gap of 48 for every child, and a floor of 100
  under the children's space.
\<close>

definition sizingRule :: "string set \<Rightarrow> MindMapNode \<Rightarrow> rat" where
  "sizingRule E m =
    (if children m = [] then max 100 (estimateSelfHeight E m)
     else max (estimateSelfHeight E m)
            (max (sum_list (childHeights m) + rat_of_nat (length (children m)) * 48) 100))"

text \<open>What the rendering surface receives from one run: nodes, edges and bounding box.\<close>

definition flowOf :: "(FlowNode list \<times> FlowEdge list \<times> GlobalMindMap) option
    \<Rightarrow> (FlowNode list \<times> FlowEdge list \<times> ((rat \<times> rat) \<times> (rat \<times> rat)) option) option" where
  "flowOf res = map_option (\<lambda>(ns, es, m). (ns, es, translateExtent ns)) res"


text \<open>Example inputs: a root with one collapsed leaf, and a root over a leaf and an expanded parent.\<close>

definition oneChildTree :: MindMapNode where
  "oneChildTree = MindMapNode ''r'' ''R'' None [MindMapNode ''a'' ''A'' None [] None] None"

definition skewTree :: MindMapNode where
  "skewTree = MindMapNode ''r'' ''R'' None
     [MindMapNode ''p'' ''P'' None [] None,
      MindMapNode ''q'' ''Q'' (Some (replicate 161 CHR ''x''))
        [MindMapNode ''q1'' ''Q1'' None [] None] None] None"

definition skewMap :: GlobalMindMap where
  "skewMap = \<lparr>user_id = ''u'', thread_id = ''t'', roots = [skewTree]\<rparr>"

definition activeState :: ModalState where
  "activeState = initialState\<lparr>pollingActiveRef := True, socketRef := True, pollRequests := 1\<rparr>"

definition completedPayload :: ProgressPayload where
  "completedPayload = \<lparr>pp_message = Some ''done'', pp_status = None, pp_data = None,
     pp_completed = Some True\<rparr>"

section \<open>The fetch behind a poll\<close>



text \<open>Example responses and states of the coordinator.\<close>

definition workingResponse :: MindMapResponse where
  "workingResponse = \<lparr>mind_map = True, resp_status = Some False, resp_message = ''working'',
     resp_data = None\<rparr>"

definition readyResponse :: MindMapResponse where
  "readyResponse = \<lparr>mind_map = True, resp_status = Some True, resp_message = ''ready'',
     resp_data = Some skewMap\<rparr>"

text \<open>A coordinator just started on a flow that is not ready: its first poll is in flight.\<close>

definition pollingState :: ModalState where
  "pollingState = startCoordinator workingResponse initialState"

text \<open>
  The dialog closed while that poll was in flight and opened again: the effect's cleanup
  and the next run of the effect, whose initial fetch found the flow still not ready.
\<close>

definition reopenedState :: ModalState where
  "reopenedState = startCoordinator workingResponse (closeEverything pollingState)"

section \<open>Notions used in the layout proofs\<close>













text \<open>A node sits at the mean of its children, where it has any.\<close>

definition centred :: "(string \<rightharpoonup> string list) \<Rightarrow> (string \<Rightarrow> rat) \<Rightarrow> string \<Rightarrow> bool" where
  "centred cm Y i \<longleftrightarrow>
     (case cm i of None \<Rightarrow> True
      | Some ks \<Rightarrow> ks \<noteq> [] \<longrightarrow> Y i = sum_list (map Y ks) / rat_of_nat (length ks))"

section \<open>Size estimator and sizing pass: proofs\<close>



lemma estimateSelfHeight_cong:
  "node_id a = node_id b \<Longrightarrow> description a = description b \<Longrightarrow>
   estimateSelfHeight E a = estimateSelfHeight E b"
  by (simp add: estimateSelfHeight_def noDescription_def)

lemma est_node:
  "estimateSelfHeight E (MindMapNode i t d cs rh) =
    (if i \<notin> E \<or> d = None \<or> d = Some [] then 72
     else min (136 + rat_of_int \<lceil>rat_of_nat (length (the d)) / 80\<rceil> * 18) 328)"
  by (auto simp: estimateSelfHeight_def noDescription_def Let_def split: option.splits)

lemma calcHeight_fields:
  "node_id (snd (calcHeight E n)) = node_id n"
  "title (snd (calcHeight E n)) = title n"
  "description (snd (calcHeight E n)) = description n"
  "children (snd (calcHeight E n)) = map (\<lambda>c. snd (calcHeight E c)) (children n)"
  "requiredHeight (snd (calcHeight E n)) = Some (fst (calcHeight E n))"
  by (cases n; simp add: Let_def)+

lemma calcHeight_fst: "fst (calcHeight E n) = sizingRule E (snd (calcHeight E n))"
proof (cases n)
  case (MindMapNode i t d cs rh)
  have e: "estimateSelfHeight E (snd (calcHeight E n)) = estimateSelfHeight E n"
    by (rule estimateSelfHeight_cong) (simp_all add: calcHeight_fields)
  have ch: "childHeights (snd (calcHeight E n)) = map (\<lambda>c. fst (calcHeight E c)) (children n)"
    by (simp add: childHeights_def calcHeight_fields o_def)
  show ?thesis
    unfolding sizingRule_def e ch calcHeight_fields
    using MindMapNode by (simp add: Let_def o_def)
qed

lemma calcHeight_all:
  "m \<in> set (nodesOf (snd (calcHeight E n))) \<Longrightarrow> requiredHeight m = Some (sizingRule E m)"
proof (induction n arbitrary: m)
  case (MindMapNode i t d cs rh)
  let ?n = "MindMapNode i t d cs rh"
  let ?n' = "snd (calcHeight E ?n)"
  have n': "?n' = MindMapNode i t d (map (\<lambda>c. snd (calcHeight E c)) cs) (Some (fst (calcHeight E ?n)))"
    by (simp add: Let_def)
  from MindMapNode.prems
  have "m \<in> set (nodesOf (MindMapNode i t d (map (\<lambda>c. snd (calcHeight E c)) cs)
                 (Some (fst (calcHeight E ?n)))))"
    by (simp only: n')
  then have "m = MindMapNode i t d (map (\<lambda>c. snd (calcHeight E c)) cs) (Some (fst (calcHeight E ?n)))
      \<or> (\<exists>c \<in> set cs. m \<in> set (nodesOf (snd (calcHeight E c))))"
    by (auto simp del: calcHeight.simps)
  then have "m = ?n' \<or> (\<exists>c \<in> set cs. m \<in> set (nodesOf (snd (calcHeight E c))))"
    by (simp only: n')
  then show ?case
  proof
    assume "m = ?n'"
    then show ?thesis
      using calcHeight_fields(5)[of E ?n] calcHeight_fst[of E ?n] by (simp del: calcHeight.simps)
  next
    assume "\<exists>c \<in> set cs. m \<in> set (nodesOf (snd (calcHeight E c)))"
    then show ?thesis using MindMapNode.IH by blast
  qed
qed

text \<open>A run of the sizing pass overwrites whatever an earlier run left on the nodes.\<close>

lemma calcHeight_stale: "calcHeight E (snd (calcHeight E' n)) = calcHeight E n"
proof (induction n)
  case (MindMapNode i t d cs rh)
  have k1: "map (\<lambda>x. fst (calcHeight E (snd (calcHeight E' x)))) cs = map (\<lambda>x. fst (calcHeight E x)) cs"
    using MindMapNode.IH by simp
  have k2: "map (\<lambda>x. snd (calcHeight E (snd (calcHeight E' x)))) cs = map (\<lambda>x. snd (calcHeight E x)) cs"
    using MindMapNode.IH by simp
  show ?case
  proof (cases "cs = []")
    case True
    then show ?thesis by (simp add: Let_def est_node)
  next
    case False
    then show ?thesis by (simp add: Let_def est_node o_def k1 k2)
  qed
qed

lemma sizeRoots_stale: "sizeRoots E (sizeRoots E' rs) = sizeRoots E rs"
  by (simp add: sizeRoots_def o_def calcHeight_stale del: calcHeight.simps)

lemma calcHeight_est_cong:
  "(\<And>m. m \<in> set (nodesOf n) \<Longrightarrow> estimateSelfHeight E m = estimateSelfHeight E' m) \<Longrightarrow>
   calcHeight E n = calcHeight E' n"
proof (induction n)
  case (MindMapNode i t d cs rh)
  let ?n = "MindMapNode i t d cs rh"
  have e: "estimateSelfHeight E ?n = estimateSelfHeight E' ?n"
    using MindMapNode.prems by simp
  have "\<And>c. c \<in> set cs \<Longrightarrow> calcHeight E c = calcHeight E' c"
    using MindMapNode.IH MindMapNode.prems by auto
  then have k: "map (calcHeight E) cs = map (calcHeight E') cs" by simp
  show ?case
    by (simp only: calcHeight.simps e k)
qed

lemma sizeRoots_est_cong:
  assumes "\<And>m. m \<in> set (forestNodes rs) \<Longrightarrow> estimateSelfHeight E m = estimateSelfHeight E' m"
  shows "sizeRoots E rs = sizeRoots E' rs"
proof -
  have "calcHeight E r = calcHeight E' r" if "r \<in> set rs" for r
  proof (rule calcHeight_est_cong)
    fix m assume "m \<in> set (nodesOf r)"
    then have "m \<in> set (forestNodes rs)" using that by (auto simp: forestNodes_def)
    then show "estimateSelfHeight E m = estimateSelfHeight E' m" by (rule assms)
  qed
  then show ?thesis by (simp add: sizeRoots_def del: calcHeight.simps)
qed

text \<open>
  C1 (as stated): every internal node's required height is
  \<open>max(selfHeight, sum of the children's required heights + (childCount - 1) * minGap)\<close>.
  It fails on a root with one collapsed leaf child: the code stores 148 on the root,
  the stated rule gives 100, whatever the gap.
\<close>

theorem calcHeight_spec_rule_counterexample:
  "requiredHeight (hd (sizeRoots {} [oneChildTree])) = Some 148 \<and>
   specRequiredHeight 100 48 {} (hd (sizeRoots {} [oneChildTree])) = 100"
  by (simp add: sizeRoots_def oneChildTree_def specRequiredHeight_def childHeights_def
      estimateSelfHeight_def noDescription_def Let_def)

text \<open>
  C1 (amended): after the sizing pass every leaf carries
  \<open>max(100, selfHeight)\<close> and every internal node carries
  \<open>max(selfHeight, max(sum of the children's required heights + childCount * 48, 100))\<close>:
  one gap per child, not one per pair of neighbours.
\<close>

theorem calcHeight_requiredHeight:
  "m \<in> set (forestNodes (sizeRoots E rs)) \<Longrightarrow> requiredHeight m = Some (sizingRule E m)"
  by (auto simp: forestNodes_def sizeRoots_def calcHeight_all simp del: calcHeight.simps)

theorem calcHeight_requiredHeight_witness:
  "hd (sizeRoots {} [oneChildTree]) \<in> set (forestNodes (sizeRoots {} [oneChildTree])) \<and>
   requiredHeight (hd (sizeRoots {} [oneChildTree])) = Some 148 \<and>
   sizingRule {} (hd (sizeRoots {} [oneChildTree])) = 148"
  using calcHeight_requiredHeight [of "hd (sizeRoots {} [oneChildTree])" "{}" "[oneChildTree]"]
  by (simp add: sizeRoots_def oneChildTree_def forestNodes_def sizingRule_def childHeights_def
      estimateSelfHeight_def noDescription_def Let_def)

text \<open>
  C10: a node without description is estimated at the collapsed baseline 72 whatever the
  expansion set; so inserting its id into the set or removing it changes no estimated
  height and no required height of a tree with unique ids.
\<close>

theorem descriptionless_height_fixed:
  assumes "noDescription n"
    and "n \<in> set (forestNodes rs)"
    and "distinct (map node_id (forestNodes rs))"
  shows "estimateSelfHeight E n = 72 \<and>
    (\<forall>m \<in> set (forestNodes rs).
       estimateSelfHeight (insert (node_id n) E) m = estimateSelfHeight E m \<and>
       estimateSelfHeight (E - {node_id n}) m = estimateSelfHeight E m) \<and>
    sizeRoots (insert (node_id n) E) rs = sizeRoots E rs \<and>
    sizeRoots (E - {node_id n}) rs = sizeRoots E rs"
proof -
  have base: "estimateSelfHeight E' n = 72" for E'
    using assms(1) by (simp add: estimateSelfHeight_def)
  have inj: "inj_on node_id (set (forestNodes rs))"
    using assms(3) by (simp add: distinct_map)
  have same: "estimateSelfHeight E' m = estimateSelfHeight E m"
    if m: "m \<in> set (forestNodes rs)" and E': "E' - {node_id n} = E - {node_id n}" for m E'
  proof (cases "node_id m = node_id n")
    case True
    then have "m = n" using inj m assms(2) by (auto dest: inj_onD)
    then show ?thesis using base by simp
  next
    case False
    then have "(node_id m \<in> E') = (node_id m \<in> E)" using E' by blast
    then show ?thesis by (simp add: estimateSelfHeight_def)
  qed
  have ins: "estimateSelfHeight (insert (node_id n) E) m = estimateSelfHeight E m"
    if "m \<in> set (forestNodes rs)" for m
    using that by (intro same) auto
  have del: "estimateSelfHeight (E - {node_id n}) m = estimateSelfHeight E m"
    if "m \<in> set (forestNodes rs)" for m
    using that by (intro same) auto
  show ?thesis
    using base ins del sizeRoots_est_cong [of rs "insert (node_id n) E" E]
      sizeRoots_est_cong [of rs "E - {node_id n}" E]
    by blast
qed

theorem descriptionless_height_fixed_witness:
  "noDescription (hd (children oneChildTree)) \<and>
   hd (children oneChildTree) \<in> set (forestNodes [oneChildTree]) \<and>
   distinct (map node_id (forestNodes [oneChildTree])) \<and>
   estimateSelfHeight {''a''} (hd (children oneChildTree)) = 72 \<and>
   sizeRoots (insert ''a'' {}) [oneChildTree] = sizeRoots {} [oneChildTree]"
  using descriptionless_height_fixed [of "hd (children oneChildTree)" "[oneChildTree]" "{''a''}"]
    descriptionless_height_fixed [of "hd (children oneChildTree)" "[oneChildTree]" "{}"]
  by (simp add: oneChildTree_def forestNodes_def noDescription_def)

section \<open>Determinism and the expansion round trip\<close>

lemma placement_stale:
  "placement E dark (mm\<lparr>roots := sizeRoots E' (roots mm)\<rparr>) = placement E dark mm"
  by (simp add: placement_def sizeRoots_stale)

lemma recentered_stale:
  "recentered E dark (mm\<lparr>roots := sizeRoots E' (roots mm)\<rparr>) = recentered E dark mm"
  by (simp only: recentered_def placement_stale)

lemma convert_stale:
  "flowOf (convertMindMapToFlow E dark (mm\<lparr>roots := sizeRoots E' (roots mm)\<rparr>))
   = flowOf (convertMindMapToFlow E dark mm)"
  unfolding convertMindMapToFlow_def flowOf_def
  by (simp only: recentered_stale placement_stale Let_def) (simp split: option.splits)

lemma toggle_toggle: "toggle i (toggle i E) = E"
  by (auto simp: toggle_def)

text \<open>
  C3: the layout is a function of the tree, the expansion set and the theme alone. The
  only state that survives a run is the \<open>_requiredHeight\<close> that the sizing pass leaves on
  the nodes, and a later run does not read it before overwriting it: a run on a map that
  an earlier run (with any expansion set) has already sized gives the same nodes, edges
  and bounding box as a run on the fresh map. The height estimate depends on the
  expansion set only through the node's own flag.
\<close>

theorem layout_deterministic:
  "flowOf (convertMindMapToFlow E dark (mm\<lparr>roots := sizeRoots E' (roots mm)\<rparr>))
     = flowOf (convertMindMapToFlow E dark mm) \<and>
   ((node_id n \<in> E) = (node_id n \<in> E') \<longrightarrow>
      estimateSelfHeight E n = estimateSelfHeight E' n)"
  by (simp add: convert_stale estimateSelfHeight_def)

theorem layout_deterministic_witness:
  "flowOf (convertMindMapToFlow {''q''} False (skewMap\<lparr>roots := sizeRoots {''p''} (roots skewMap)\<rparr>))
     = flowOf (convertMindMapToFlow {''q''} False skewMap) \<and>
   (node_id skewTree \<in> {''q''}) = (node_id skewTree \<in> {''p''}) \<and>
   estimateSelfHeight {''q''} skewTree = estimateSelfHeight {''p''} skewTree"
  using layout_deterministic [where E = "{''q''}" and dark = False and mm = skewMap
      and E' = "{''p''}" and n = skewTree]
  by (simp add: skewTree_def)

text \<open>
  C9: expanding a collapsed node and collapsing it again gives back the expansion set,
  and the third layout (computed on the map as the two earlier runs left it) is the
  first one: same nodes, edges and bounding box.
\<close>

theorem expand_collapse_roundtrip:
  "i \<notin> E \<Longrightarrow>
   toggle i E = insert i E \<and> toggle i (insert i E) = E \<and>
   flowOf (convertMindMapToFlow (toggle i (toggle i E)) dark
            (mm\<lparr>roots := sizeRoots (toggle i E) (sizeRoots E (roots mm))\<rparr>))
     = flowOf (convertMindMapToFlow E dark mm)"
proof -
  assume i: "i \<notin> E"
  have a: "toggle i E = insert i E" using i by (simp add: toggle_def)
  have b: "toggle i (insert i E) = E" using i by (auto simp: toggle_def)
  have "sizeRoots (toggle i E) (sizeRoots E (roots mm)) = sizeRoots (toggle i E) (roots mm)"
    by (rule sizeRoots_stale)
  then show ?thesis using a b convert_stale [where E = E and dark = dark and mm = mm and E' = "toggle i E"]
    by (simp add: toggle_toggle)
qed

theorem expand_collapse_roundtrip_witness:
  "''p'' \<notin> {''q''} \<and>
   flowOf (convertMindMapToFlow (toggle ''p'' (toggle ''p'' {''q''})) False
            (skewMap\<lparr>roots := sizeRoots (toggle ''p'' {''q''}) (sizeRoots {''q''} (roots skewMap))\<rparr>))
     = flowOf (convertMindMapToFlow {''q''} False skewMap)"
  using expand_collapse_roundtrip [where i = "''p''" and E = "{''q''}" and dark = False and mm = skewMap]
  by (simp add: toggle_def)

section \<open>The recentering invariant in the output\<close>


section \<open>Placement: what \<open>add\<close> builds\<close>































section \<open>Index lookups and subtree shifts\<close>

















section \<open>The collision pass separates every level\<close>








section \<open>The recentering pass centres every parent\<close>










section \<open>The whole layout on a tree with unique ids\<close>











section \<open>Progress feed and polling loop: proofs\<close>

lemma step_inactive: "\<not> pollingActiveRef s \<Longrightarrow> \<not> pollingActiveRef (step e s)"
  by (cases e) (auto simp: onProgress_def closeEverything_def pollOnce_start_def
      pollOnce_resume_def scheduleNext_def Let_def split: option.splits settled.splits)

lemma step_inactive_requests: "\<not> pollingActiveRef s \<Longrightarrow> pollRequests (step e s) = pollRequests s"
  by (cases e) (auto simp: onProgress_def closeEverything_def pollOnce_start_def
      pollOnce_resume_def scheduleNext_def Let_def split: option.splits settled.splits)

lemma run_inactive:
  "\<not> pollingActiveRef s \<Longrightarrow>
   \<not> pollingActiveRef (run evs s) \<and> pollRequests (run evs s) = pollRequests s"
  unfolding run_def
proof (induction evs arbitrary: s)
  case Nil
  then show ?case by simp
next
  case (Cons e evs)
  then show ?case using step_inactive [of s e] step_inactive_requests [of s e] by simp
qed

lemma resume_inactive: "\<not> pollingActiveRef s \<Longrightarrow> pollOnce_resume res s = s"
  by (simp add: pollOnce_resume_def scheduleNext_def split: settled.splits)



text \<open>
  C5: a progress event changes, of the view state, only \<open>message\<close> and \<open>showMessage\<close>
  (besides them only the polling refs and the socket ref, when it signals completion):
  \<open>status\<close>, \<open>mapData\<close> and \<open>expandedNodes\<close> keep their values. A settled poll changes
  only \<open>status\<close> and \<open>mapData\<close> (besides them only the payload, timer and active refs):
  \<open>message\<close> and \<open>showMessage\<close> keep their values.
\<close>

theorem channels_disjoint_authority:
  "onProgress data s =
     s\<lparr>message := message (onProgress data s), showMessage := showMessage (onProgress data s),
       pollingTimeoutRef := pollingTimeoutRef (onProgress data s),
       pollingActiveRef := pollingActiveRef (onProgress data s),
       socketRef := socketRef (onProgress data s)\<rparr> \<and>
   status (onProgress data s) = status s \<and>
   mapData (onProgress data s) = mapData s \<and>
   expandedNodes (onProgress data s) = expandedNodes s \<and>
   pollOnce_resume res s =
     s\<lparr>mapData := mapData (pollOnce_resume res s), status := status (pollOnce_resume res s),
       pollingTimeoutRef := pollingTimeoutRef (pollOnce_resume res s),
       pollingActiveRef := pollingActiveRef (pollOnce_resume res s),
       lastPayloadRef := lastPayloadRef (pollOnce_resume res s)\<rparr> \<and>
   message (pollOnce_resume res s) = message s \<and>
   showMessage (pollOnce_resume res s) = showMessage s"
  by (simp add: onProgress_def pollOnce_resume_def applyPoll_def scheduleNext_def Let_def
      split: option.splits settled.splits)

theorem channels_disjoint_authority_witness:
  "status (onProgress completedPayload activeState) = status activeState \<and>
   message (onProgress completedPayload activeState) = ''done'' \<and>
   message (pollOnce_resume
              (Resolved \<lparr>mind_map = True, resp_status = Some False, resp_message = ''working'',
                         resp_data = None\<rparr>) activeState) = message activeState \<and>
   status (pollOnce_resume
              (Resolved \<lparr>mind_map = True, resp_status = Some False, resp_message = ''working'',
                         resp_data = None\<rparr>) activeState) = Some False"
  using channels_disjoint_authority [of completedPayload activeState
      "Resolved \<lparr>mind_map = True, resp_status = Some False, resp_message = ''working'',
                 resp_data = None\<rparr>"]
  by (simp add: onProgress_def completedPayload_def activeState_def initialState_def
      pollOnce_resume_def applyPoll_def scheduleNext_def Let_def)

text \<open>
  C6: handling a \<open>completed\<close> progress event issues no poll request and leaves no timer,
  and whatever happens afterwards (timer callbacks, polls settling, further progress
  events, clicks, closing) the number of poll requests stays what it was.
\<close>

theorem completed_stops_polling:
  "pp_completed data = Some True \<Longrightarrow>
   pollRequests (onProgress data s) = pollRequests s \<and>
   pollingTimeoutRef (onProgress data s) = None \<and>
   pollRequests (run evs (onProgress data s)) = pollRequests s"
proof -
  assume c: "pp_completed data = Some True"
  have i: "\<not> pollingActiveRef (onProgress data s)"
    using c by (simp add: onProgress_def Let_def split: option.splits)
  have r: "pollRequests (onProgress data s) = pollRequests s"
    by (simp add: onProgress_def Let_def split: option.splits)
  have t: "pollingTimeoutRef (onProgress data s) = None"
    using c by (simp add: onProgress_def Let_def split: option.splits)
  show ?thesis using run_inactive [OF i, of evs] r t by simp
qed

theorem completed_stops_polling_witness:
  "pp_completed completedPayload = Some True \<and>
   pollRequests activeState = 1 \<and>
   pollRequests (run [TimerFires, PollSettles Rejected, TimerFires]
                   (onProgress completedPayload activeState)) = 1"
  using completed_stops_polling [of completedPayload activeState
      "[TimerFires, PollSettles Rejected, TimerFires]"]
  by (simp add: completedPayload_def activeState_def initialState_def)

text \<open>
  Within one run of the coordinator a stopped poll is ignored: after \<open>closeEverything\<close>
  and any further events of that run, the continuation of a poll returns the state as it
  finds it.
\<close>

lemma stopped_poll_ignored:
  "pollOnce_resume res (run evs (closeEverything s)) = run evs (closeEverything s)"
proof -
  have "\<not> pollingActiveRef (closeEverything s)" by (simp add: closeEverything_def)
  then have "\<not> pollingActiveRef (run evs (closeEverything s))" using run_inactive by blast
  then show ?thesis by (rule resume_inactive)
qed

text \<open>
  C7: a poll that was in flight when the coordinator was stopped must change nothing
  when it resolves. The code re-checks \<open>pollingActiveRef\<close>, a ref shared by every run of
  the effect, and the next run sets it again: when the dialog is closed while the first
  poll is in flight and opened again before that poll resolves, the late response passes
  the check, overwrites \<open>status\<close> and \<open>mapData\<close> and schedules a timer of its own.
\<close>

theorem late_poll_after_reopen:
  "pollRequests pollingState = 1 \<and>
   \<not> pollingActiveRef (closeEverything pollingState) \<and>
   status reopenedState = Some False \<and>
   mapData reopenedState = None \<and>
   pollingTimeoutRef reopenedState = None \<and>
   status (pollOnce_resume (Resolved readyResponse) reopenedState) = Some True \<and>
   mapData (pollOnce_resume (Resolved readyResponse) reopenedState) = Some skewMap \<and>
   pollingTimeoutRef (pollOnce_resume (Resolved readyResponse) reopenedState) = Some 10000"
  by (simp add: reopenedState_def pollingState_def startCoordinator_def closeEverything_def
      pollOnce_start_def pollOnce_resume_def applyPoll_def scheduleNext_def initialState_def
      workingResponse_def readyResponse_def Let_def)




end
